theory Spec2Isabelle
  imports Main "HOL-Library.Sublist"
begin

section \<open>JavaScript values used by the engine\<close>

text \<open>
  A JavaScript number that may be \<^verbatim>\<open>NaN\<close>, and an array element that may be
  \<^verbatim>\<open>undefined\<close>, are both modelled as \<open>nat option\<close>: \<open>None\<close> is \<^verbatim>\<open>NaN\<close> or
  \<^verbatim>\<open>undefined\<close>. Arithmetic propagates \<open>None\<close>; every comparison with \<open>None\<close> is false,
  as in JavaScript.
\<close>

type_synonym jsnum = "nat option"

definition numAdd :: "jsnum \<Rightarrow> jsnum \<Rightarrow> jsnum" where
  "numAdd a b = (case a of None \<Rightarrow> None | Some x \<Rightarrow> (case b of None \<Rightarrow> None | Some y \<Rightarrow> Some (x + y)))"

definition numMul :: "jsnum \<Rightarrow> jsnum \<Rightarrow> jsnum" where
  "numMul a b = (case a of None \<Rightarrow> None | Some x \<Rightarrow> (case b of None \<Rightarrow> None | Some y \<Rightarrow> Some (x * y)))"

definition numLess :: "jsnum \<Rightarrow> jsnum \<Rightarrow> bool" where
  "numLess a b = (case a of None \<Rightarrow> False | Some x \<Rightarrow> (case b of None \<Rightarrow> False | Some y \<Rightarrow> x < y))"

definition numGeq :: "jsnum \<Rightarrow> jsnum \<Rightarrow> bool" where
  "numGeq a b = (case a of None \<Rightarrow> False | Some x \<Rightarrow> (case b of None \<Rightarrow> False | Some y \<Rightarrow> y \<le> x))"

text \<open>\<^verbatim>\<open>data[index]\<close> on a typed array: \<^verbatim>\<open>undefined\<close> out of range or at \<^verbatim>\<open>NaN\<close>.\<close>

definition dataAt :: "nat list \<Rightarrow> jsnum \<Rightarrow> nat option" where
  "dataAt d i = (case i of None \<Rightarrow> None | Some n \<Rightarrow> if n < length d then Some (d ! n) else None)"

text \<open>Template literal \<^verbatim>\<open>${n}\<close>: decimal, no padding; \<^verbatim>\<open>undefined\<close> prints as such.\<close>

fun showNat :: "nat \<Rightarrow> string" where
  "showNat n = (if n < 10 then [''0123456789'' ! n] else showNat (n div 10) @ [''0123456789'' ! (n mod 10)])"

declare showNat.simps [simp del]

definition showNum :: "nat option \<Rightarrow> string" where
  "showNum v = (case v of None \<Rightarrow> ''undefined'' | Some n \<Rightarrow> showNat n)"

text \<open>
  \<^verbatim>\<open>Number(s)\<close> on a component of a tile key. The keys are comma-separated decimal
  fields; a string of decimal digits converts to its value (the empty string to 0), a
  missing component (\<^verbatim>\<open>undefined\<close>) and every other string to \<^verbatim>\<open>NaN\<close>. Signs,
  fractions, exponents and surrounding blanks, which \<^verbatim>\<open>Number\<close> also reads, do not
  occur in tile keys and are not modelled.
\<close>

definition digitVal :: "char \<Rightarrow> nat option" where
  "digitVal c = map_of (zip ''0123456789'' [0, 1, 2, 3, 4, 5, 6, 7, 8, 9]) c"

fun digitsVal :: "nat \<Rightarrow> string \<Rightarrow> jsnum" where
  "digitsVal acc [] = Some acc"
| "digitsVal acc (c # cs) = (case digitVal c of None \<Rightarrow> None | Some d \<Rightarrow> digitsVal (10 * acc + d) cs)"

definition Number :: "string option \<Rightarrow> jsnum" where
  "Number s = (case s of None \<Rightarrow> None | Some cs \<Rightarrow> digitsVal 0 cs)"

section \<open>Pixel.js\<close>

record Pixel =
  red :: "nat option"
  green :: "nat option"
  blue :: "nat option"
  alpha :: "nat option"

definition isPainted :: "Pixel \<Rightarrow> bool" where
  "isPainted p = numGeq (alpha p) (Some 64)"

definition isUnpainted :: "Pixel \<Rightarrow> bool" where
  "isUnpainted p = numLess (alpha p) (Some 64)"

definition getFromData :: "nat list \<Rightarrow> jsnum \<Rightarrow> Pixel" where
  "getFromData d index =
     \<lparr> red = dataAt d index,
       green = dataAt d (numAdd index (Some 1)),
       blue = dataAt d (numAdd index (Some 2)),
       alpha = dataAt d (numAdd index (Some 3)) \<rparr>"

definition getColorKey :: "Pixel \<Rightarrow> string" where
  "getColorKey p = showNum (red p) @ '','' @ showNum (green p) @ '','' @ showNum (blue p)"

definition equalsRGB :: "Pixel \<Rightarrow> Pixel \<Rightarrow> bool" where
  "equalsRGB p otherPixel =
     (red p = red otherPixel \<and> green p = green otherPixel \<and> blue p = blue otherPixel)"

definition equalsRGBA :: "Pixel \<Rightarrow> Pixel \<Rightarrow> bool" where
  "equalsRGBA p otherPixel =
     (red p = red otherPixel \<and> green p = green otherPixel \<and> blue p = blue otherPixel
      \<and> alpha p = alpha otherPixel)"

section \<open>TileProgress and TileProgressManager\<close>

text \<open>One entry of \<^verbatim>\<open>wrongPixelPositions\<close>: the object \<^verbatim>\<open>{tx, ty, px, py}\<close>.\<close>

record WrongPixel =
  tx :: jsnum
  ty :: jsnum
  px :: jsnum
  py :: jsnum

text \<open>
  The colour counters are JavaScript objects from colour key to count; a missing key
  reads as \<^verbatim>\<open>undefined\<close>.
\<close>

record TileProgress =
  totalPixelCount :: nat
  paintedPixelCount :: nat
  wrongPixelCount :: nat
  paintedPixelColorCounts :: "string \<rightharpoonup> nat"
  wrongPixelColorCounts :: "string \<rightharpoonup> nat"
  wrongPixelPositions :: "WrongPixel list"

text \<open>
  The manager holds a JavaScript \<^verbatim>\<open>Map\<close>, which iterates in insertion order and
  keeps the position of a key whose value is replaced: an association list with
  update in place.
\<close>

type_synonym TileProgressManager = "(string \<times> TileProgress) list"

fun TileProgressManager_set :: "string \<Rightarrow> TileProgress \<Rightarrow> TileProgressManager \<Rightarrow> TileProgressManager" where
  "TileProgressManager_set tileKey progress [] = [(tileKey, progress)]"
| "TileProgressManager_set tileKey progress ((k, v) # rest) =
     (if k = tileKey then (k, progress) # rest
      else (k, v) # TileProgressManager_set tileKey progress rest)"

definition TileProgressManager_get :: "TileProgressManager \<Rightarrow> string \<Rightarrow> TileProgress option" where
  "TileProgressManager_get tp tileKey = map_of tp tileKey"

text \<open>The object returned by \<^verbatim>\<open>computeTotalProgress\<close>, fields named as its accumulators.\<close>

record TotalProgress =
  aggregateTotalPixelCount :: nat
  aggregatePaintedPixelCount :: nat
  aggregateWrongPixelCount :: nat
  aggregateWrongPixelPositions :: "WrongPixel list"

definition addProgress :: "TileProgress \<Rightarrow> TotalProgress \<Rightarrow> TotalProgress" where
  "addProgress progress acc =
     \<lparr> aggregateTotalPixelCount = aggregateTotalPixelCount acc + totalPixelCount progress,
       aggregatePaintedPixelCount = aggregatePaintedPixelCount acc + paintedPixelCount progress,
       aggregateWrongPixelCount = aggregateWrongPixelCount acc + wrongPixelCount progress,
       aggregateWrongPixelPositions = aggregateWrongPixelPositions acc @ wrongPixelPositions progress \<rparr>"

definition computeTotalProgress :: "TileProgressManager \<Rightarrow> TotalProgress" where
  "computeTotalProgress tp =
     fold addProgress (map snd tp)
       \<lparr> aggregateTotalPixelCount = 0, aggregatePaintedPixelCount = 0,
         aggregateWrongPixelCount = 0, aggregateWrongPixelPositions = [] \<rparr>"

section \<open>Templates and TemplateArray.js\<close>

text \<open>
  A template tile bitmap, with the RGBA bytes that \<^verbatim>\<open>getImageData\<close> reads after the
  bitmap is drawn on a cleared canvas of its own size (four bytes per pixel, row-major).
\<close>

record Bitmap =
  width :: nat
  height :: nat
  data :: "nat list"

record PaletteEntry =
  count :: nat
  enabled :: bool

text \<open>
  The fields of a \<^verbatim>\<open>Template\<close> that the engine reads. \<open>chunked\<close> is the object from
  tile key to bitmap, in key order of \<^verbatim>\<open>Object.keys\<close>; every template of
  \<^verbatim>\<open>templatesArray\<close> has it assigned before it is pushed, so the guard
  \<^verbatim>\<open>!template?.chunked\<close> never fires. \<open>tilePrefixes\<close> and \<open>allowedColorsSet\<close> may be
  absent (\<open>None\<close>); an absent \<open>colorPalette\<close> reads as the empty object, and its
  entries are listed with one entry per key. \<open>sortID\<close> is the number the templates
  are sorted by; JavaScript's sort is stable, as \<open>sort_key\<close> is.
\<close>

record Template =
  sortID :: int
  chunked :: "(string \<times> Bitmap) list"
  tilePrefixes :: "string set option"
  allowedColorsSet :: "string set option"
  colorPalette :: "(string \<times> PaletteEntry) list"

record TemplateTileBlob =
  bitmap :: Bitmap
  tileCoords :: "string option \<times> string option"
  pixelCoords :: "string option \<times> string option"

text \<open>\<^verbatim>\<open>s.split(',')\<close>, \<^verbatim>\<open>parts.join(',')\<close>, \<^verbatim>\<open>k.startsWith(p)\<close> and \<^verbatim>\<open>coords[i]\<close>.\<close>

fun splitComma :: "string \<Rightarrow> string list" where
  "splitComma [] = [[]]"
| "splitComma (c # cs) =
     (if c = CHR '','' then [] # splitComma cs
      else (case splitComma cs of [] \<Rightarrow> [[c]] | w # ws \<Rightarrow> (c # w) # ws))"

fun joinComma :: "string list \<Rightarrow> string" where
  "joinComma [] = []"
| "joinComma [w] = w"
| "joinComma (w # v # ws) = w @ CHR '','' # joinComma (v # ws)"

definition startsWith :: "string \<Rightarrow> string \<Rightarrow> bool" where
  "startsWith k p = prefix p k"

definition elementAt :: "'a list \<Rightarrow> nat \<Rightarrow> 'a option" where
  "elementAt xs i = (if i < length xs then Some (xs ! i) else None)"

text \<open>The tile prefix recorded for a key: \<^verbatim>\<open>k.split(',').slice(0,2).join(',')\<close>.\<close>

definition tilePrefixOf :: "string \<Rightarrow> string" where
  "tilePrefixOf k = joinComma (take 2 (splitComma k))"

definition sortByPriority :: "Template list \<Rightarrow> Template list" where
  "sortByPriority templates = sort_key sortID templates"

text \<open>The two overlap tests of \<^verbatim>\<open>isAnyTemplateInTile\<close>, for one template.\<close>

definition inTileByPrefixes :: "string set \<Rightarrow> string \<Rightarrow> bool" where
  "inTileByPrefixes prefixSet tileCoordsStr = (tileCoordsStr \<in> prefixSet)"

definition inTileByScan :: "Template \<Rightarrow> string \<Rightarrow> bool" where
  "inTileByScan template tileCoordsStr = list_ex (\<lambda>k. startsWith k tileCoordsStr) (map fst (chunked template))"

definition isAnyTemplateInTile :: "Template list \<Rightarrow> string \<Rightarrow> bool" where
  "isAnyTemplateInTile templates tileCoordsStr =
     list_ex (\<lambda>template.
        (case tilePrefixes template of
           Some prefixSet \<Rightarrow>
             if prefixSet \<noteq> {} then inTileByPrefixes prefixSet tileCoordsStr
             else inTileByScan template tileCoordsStr
         | None \<Rightarrow> inTileByScan template tileCoordsStr)) templates"

definition makeTileBlob :: "string \<times> Bitmap \<Rightarrow> TemplateTileBlob" where
  "makeTileBlob entry =
     (let coords = splitComma (fst entry)
      in \<lparr> bitmap = snd entry,
           tileCoords = (elementAt coords 0, elementAt coords 1),
           pixelCoords = (elementAt coords 2, elementAt coords 3) \<rparr>)"

definition relevantBlobOf :: "Template \<Rightarrow> string \<Rightarrow> TemplateTileBlob option" where
  "relevantBlobOf template tileCoordsStr =
     (let matchingTiles = filter (\<lambda>entry. startsWith (fst entry) tileCoordsStr) (chunked template)
      in if length matchingTiles = 0 then None
         else elementAt (map makeTileBlob matchingTiles) 0)"

definition getRelevantTemplateTileBlobs :: "Template list \<Rightarrow> string \<Rightarrow> TemplateTileBlob list" where
  "getRelevantTemplateTileBlobs templates tileCoordsStr =
     List.map_filter (\<lambda>template. relevantBlobOf template tileCoordsStr) templates"

section \<open>TemplateManager.drawTemplateOnTile\<close>

text \<open>
  The manager's fields that a diff pass reads or writes. The constructor sets
  \<open>tileSize\<close> to 1000 and \<open>drawMult\<close> to 3; they are fields here as they are there.
\<close>

record TemplateManager =
  tileSize :: nat
  drawMult :: nat
  templatesArray :: "Template list"
  templatesShouldBeDrawn :: bool
  tileProgress :: TileProgressManager

text \<open>
  The output canvas is the list of what was drawn on it, in order: the live tile scaled
  to the draw size, then one image per fragment at its offset. The function returns
  either the blob it was given or the encoded canvas.
\<close>

type_synonym Blob = "nat list"

datatype DrawOp =
  DrawTile Blob nat
| DrawImage Bitmap jsnum jsnum

datatype TileOutput =
  SameBlob Blob
| CanvasBlob "DrawOp list"

definition activeTemplate :: "TemplateManager \<Rightarrow> Template option" where
  "activeTemplate m = elementAt (templatesArray m) 0"

definition bumpCount :: "(string \<rightharpoonup> nat) \<Rightarrow> string \<Rightarrow> (string \<rightharpoonup> nat)" where
  "bumpCount counts key = counts(key \<mapsto> (case counts key of None \<Rightarrow> 0 | Some c \<Rightarrow> c) + 1)"

text \<open>
  The guard at the head of both pixel loops:
  \<^verbatim>\<open>(x % drawMult) !== 1 || (y % drawMult) !== 1\<close>. With \<open>drawMult = 0\<close> the
  remainder is \<^verbatim>\<open>NaN\<close> and every pixel is skipped.
\<close>

definition notCenter :: "nat \<Rightarrow> nat \<Rightarrow> nat \<Rightarrow> bool" where
  "notCenter dm x y = (dm = 0 \<or> x mod dm \<noteq> 1 \<or> y mod dm \<noteq> 1)"

definition wrongPixelAt :: "nat \<Rightarrow> TemplateTileBlob \<Rightarrow> nat \<Rightarrow> nat \<Rightarrow> WrongPixel" where
  "wrongPixelAt dm template x y =
     \<lparr> tx = Number (fst (tileCoords template)),
       ty = Number (snd (tileCoords template)),
       px = numAdd (Number (fst (pixelCoords template))) (Some ((x - 1) div dm)),
       py = numAdd (Number (snd (pixelCoords template))) (Some ((y - 1) div dm)) \<rparr>"

text \<open>
  The coordinates and the two pixels of the statistics loop, for the template pixel at
  \<open>(x, y)\<close>: \<^verbatim>\<open>gx = x + globalOffsetX\<close>, the bounds test on \<^verbatim>\<open>gx\<close> and \<^verbatim>\<open>gy\<close>, the
  template pixel read at \<^verbatim>\<open>(y * tempWidth + x) * 4\<close> and the snapshot pixel read at
  \<^verbatim>\<open>(gy * drawSize + gx) * 4\<close>.
\<close>

definition globalX :: "TemplateManager \<Rightarrow> TemplateTileBlob \<Rightarrow> nat \<Rightarrow> jsnum" where
  "globalX m template x =
     numAdd (Some x) (numMul (Number (fst (pixelCoords template))) (Some (drawMult m)))"

definition globalY :: "TemplateManager \<Rightarrow> TemplateTileBlob \<Rightarrow> nat \<Rightarrow> jsnum" where
  "globalY m template y =
     numAdd (Some y) (numMul (Number (snd (pixelCoords template))) (Some (drawMult m)))"

definition outsideTile :: "TemplateManager \<Rightarrow> TemplateTileBlob \<Rightarrow> nat \<Rightarrow> nat \<Rightarrow> bool" where
  "outsideTile m template x y =
     (let drawSize = tileSize m * drawMult m;
          gx = globalX m template x;
          gy = globalY m template y
      in numLess gx (Some 0) \<or> numLess gy (Some 0)
         \<or> numGeq gx (Some drawSize) \<or> numGeq gy (Some drawSize))"

definition shredPixelAt :: "TemplateTileBlob \<Rightarrow> nat \<Rightarrow> nat \<Rightarrow> Pixel" where
  "shredPixelAt template x y =
     getFromData (data (bitmap template)) (Some ((y * width (bitmap template) + x) * 4))"

definition snapshotPixelAt :: "TemplateManager \<Rightarrow> nat list \<Rightarrow> TemplateTileBlob \<Rightarrow> nat \<Rightarrow> nat \<Rightarrow> Pixel" where
  "snapshotPixelAt m tilePixelsSnapshot template x y =
     (let drawSize = tileSize m * drawMult m;
          gx = globalX m template x;
          gy = globalY m template y
      in getFromData tilePixelsSnapshot (numMul (numAdd (numMul gy (Some drawSize)) gx) (Some 4)))"

definition isWPlaceColor :: "TemplateManager \<Rightarrow> string \<Rightarrow> bool" where
  "isWPlaceColor m colorKey =
     (case activeTemplate m of None \<Rightarrow> False
      | Some active \<Rightarrow>
          (case allowedColorsSet active of None \<Rightarrow> False
           | Some allowed \<Rightarrow> colorKey \<in> allowed))"

text \<open>
  The body of the statistics loop past its centre guard. \<open>x - 1\<close> in \<open>wrongPixelAt\<close>
  is only evaluated where the guard let \<open>x mod drawMult = 1\<close> through, so \<open>x\<close> is at
  least 1 there.
\<close>

definition classifySample ::
  "TemplateManager \<Rightarrow> nat list \<Rightarrow> TemplateTileBlob \<Rightarrow> nat \<Rightarrow> nat \<Rightarrow> TileProgress \<Rightarrow> TileProgress" where
  "classifySample m tilePixelsSnapshot template x y st =
     (if outsideTile m template x y then st
      else
        let shredPixel = shredPixelAt template x y
        in if isUnpainted shredPixel then
             (let snapshotPixel = snapshotPixelAt m tilePixelsSnapshot template x y;
                  colorKey = getColorKey snapshotPixel
              in if isPainted snapshotPixel \<and> isWPlaceColor m colorKey then
                   st \<lparr> wrongPixelCount := wrongPixelCount st + 1,
                        wrongPixelColorCounts := bumpCount (wrongPixelColorCounts st) (getColorKey shredPixel),
                        wrongPixelPositions := wrongPixelPositions st @ [wrongPixelAt (drawMult m) template x y] \<rparr>
                 else st)
           else
             (let st1 = st \<lparr> totalPixelCount := totalPixelCount st + 1 \<rparr>;
                  realPixel = snapshotPixelAt m tilePixelsSnapshot template x y
              in if isPainted realPixel \<and> equalsRGB realPixel shredPixel then
                   st1 \<lparr> paintedPixelCount := paintedPixelCount st1 + 1,
                         paintedPixelColorCounts := bumpCount (paintedPixelColorCounts st1) (getColorKey shredPixel) \<rparr>
                 else if isPainted realPixel then
                   st1 \<lparr> wrongPixelCount := wrongPixelCount st1 + 1,
                         wrongPixelColorCounts := bumpCount (wrongPixelColorCounts st1) (getColorKey shredPixel),
                         wrongPixelPositions := wrongPixelPositions st1 @ [wrongPixelAt (drawMult m) template x y] \<rparr>
                 else st1))"

definition classifyPixel ::
  "TemplateManager \<Rightarrow> nat list \<Rightarrow> TemplateTileBlob \<Rightarrow> nat \<Rightarrow> nat \<Rightarrow> TileProgress \<Rightarrow> TileProgress" where
  "classifyPixel m tilePixelsSnapshot template x y st =
     (if notCenter (drawMult m) x y then st
      else classifySample m tilePixelsSnapshot template x y st)"

text \<open>The two nested \<^verbatim>\<open>for\<close> loops over the fragment, rows outside, columns inside.\<close>

definition classifyTemplate ::
  "TemplateManager \<Rightarrow> nat list \<Rightarrow> TemplateTileBlob \<Rightarrow> TileProgress \<Rightarrow> TileProgress" where
  "classifyTemplate m tilePixelsSnapshot template st =
     fold (\<lambda>y. fold (\<lambda>x. classifyPixel m tilePixelsSnapshot template x y)
                  [0 ..< width (bitmap template)])
          [0 ..< height (bitmap template)] st"

text \<open>The colour filter applied to one pixel of the copy of the fragment.\<close>

definition filterPixel :: "TemplateManager \<Rightarrow> nat \<Rightarrow> nat \<Rightarrow> nat \<Rightarrow> nat list \<Rightarrow> nat list" where
  "filterPixel m tempWidth x y filterImgData =
     (if notCenter (drawMult m) x y then filterImgData
      else
        let pixelIndex = (y * tempWidth + x) * 4;
            pixel = getFromData filterImgData (Some pixelIndex)
        in if numLess (alpha pixel) (Some 1) then filterImgData
           else
             let inWplacePalette =
                   (case activeTemplate m of None \<Rightarrow> True
                    | Some active \<Rightarrow>
                        (case allowedColorsSet active of None \<Rightarrow> True
                         | Some allowed \<Rightarrow> getColorKey pixel \<in> allowed));
                 palette = (case activeTemplate m of None \<Rightarrow> [] | Some active \<Rightarrow> colorPalette active);
                 isPaletteColorEnabled =
                   (case map_of palette (if inWplacePalette then getColorKey pixel else ''other'') of
                      None \<Rightarrow> True
                    | Some entry \<Rightarrow> enabled entry \<noteq> False)
             in if \<not> inWplacePalette \<or> \<not> isPaletteColorEnabled
                then filterImgData[pixelIndex + 3 := 0]
                else filterImgData)"

definition filterTemplate :: "TemplateManager \<Rightarrow> Bitmap \<Rightarrow> nat list" where
  "filterTemplate m bmp =
     fold (\<lambda>y. fold (\<lambda>x. filterPixel m (width bmp) x y) [0 ..< width bmp])
          [0 ..< height bmp] (data bmp)"

definition hasDisabled :: "TemplateManager \<Rightarrow> bool" where
  "hasDisabled m =
     (case activeTemplate m of None \<Rightarrow> False
      | Some active \<Rightarrow> list_ex (\<lambda>entry. enabled (snd entry) = False) (colorPalette active))"

definition drawOverlay :: "TemplateManager \<Rightarrow> TemplateTileBlob \<Rightarrow> DrawOp" where
  "drawOverlay m template =
     (let dx = numMul (Number (fst (pixelCoords template))) (Some (drawMult m));
          dy = numMul (Number (snd (pixelCoords template))) (Some (drawMult m))
      in if \<not> hasDisabled m then DrawImage (bitmap template) dx dy
         else DrawImage ((bitmap template) \<lparr> data := filterTemplate m (bitmap template) \<rparr>) dx dy)"

text \<open>
  One round of the loop over the fragments: the statistics when the snapshot was
  captured, then the overlay. \<open>None\<close> for the snapshot is a failed \<^verbatim>\<open>getImageData\<close>.
  Reading a fragment's own bitmap is taken to succeed, and nothing else in the two
  \<^verbatim>\<open>try\<close> blocks can throw, so their \<^verbatim>\<open>catch\<close> branches (a warning, and the raw
  bitmap drawn instead of the filtered one) have no counterpart here.
\<close>

definition drawOneTemplate ::
  "TemplateManager \<Rightarrow> nat list option \<Rightarrow> TemplateTileBlob \<Rightarrow> TileProgress \<times> DrawOp list \<Rightarrow> TileProgress \<times> DrawOp list" where
  "drawOneTemplate m tilePixelsSnapshot template acc =
     (let st = (case tilePixelsSnapshot of
                  None \<Rightarrow> fst acc
                | Some snapshot \<Rightarrow> classifyTemplate m snapshot template (fst acc))
      in (st, snd acc @ [drawOverlay m template]))"

definition emptyProgress :: TileProgress where
  "emptyProgress =
     \<lparr> totalPixelCount = 0, paintedPixelCount = 0, wrongPixelCount = 0,
       paintedPixelColorCounts = Map.empty, wrongPixelColorCounts = Map.empty,
       wrongPixelPositions = [] \<rparr>"

text \<open>
  \<open>drawTemplateOnTile m tileBlob capture tileCoordsStr\<close>: \<open>tileCoordsStr\<close> is the tile
  address after \<^verbatim>\<open>formatTileCoords\<close>, \<open>capture\<close> what \<^verbatim>\<open>getImageData\<close> gave for the
  scaled live tile (\<open>None\<close> when it threw). \<^verbatim>\<open>sortByPriority\<close> sorts the manager's own
  array in place, so the manager returned has it sorted. The status line written to
  the overlay is not modelled.
\<close>

definition drawTemplateOnTile ::
  "TemplateManager \<Rightarrow> Blob \<Rightarrow> nat list option \<Rightarrow> string \<Rightarrow> TileOutput \<times> TemplateManager" where
  "drawTemplateOnTile m tileBlob capture tileCoordsStr =
     (if \<not> templatesShouldBeDrawn m then (SameBlob tileBlob, m)
      else
        let drawSize = tileSize m * drawMult m;
            m1 = m \<lparr> templatesArray := sortByPriority (templatesArray m) \<rparr>
        in if \<not> isAnyTemplateInTile (templatesArray m1) tileCoordsStr then (SameBlob tileBlob, m1)
           else
             let templateTileBlobsToDraw = getRelevantTemplateTileBlobs (templatesArray m1) tileCoordsStr;
                 templateCount = length templateTileBlobsToDraw;
                 result = fold (drawOneTemplate m1 capture) templateTileBlobsToDraw
                            (emptyProgress, [DrawTile tileBlob drawSize])
             in if templateCount > 0
                then (CanvasBlob (snd result),
                      m1 \<lparr> tileProgress := TileProgressManager_set tileCoordsStr (fst result) (tileProgress m1) \<rparr>)
                else (CanvasBlob (snd result), m1))"

text \<open>
  The positions the two nested loops visit over a \<open>w\<close> by \<open>h\<close> fragment, in the order
  they visit them.
\<close>

definition scannedPositions :: "nat \<Rightarrow> nat \<Rightarrow> (nat \<times> nat) list" where
  "scannedPositions w h = concat (map (\<lambda>y. map (\<lambda>x. (x, y)) [0 ..< w]) [0 ..< h])"

text \<open>
  The invariant of the data model: a recorded prefix set is exactly the set of tile
  prefixes of the keys of \<open>chunked\<close>.
\<close>

definition prefixesExact :: "Template \<Rightarrow> bool" where
  "prefixesExact template =
     (case tilePrefixes template of None \<Rightarrow> True
      | Some prefixSet \<Rightarrow> prefixSet = set (map tilePrefixOf (map fst (chunked template))))"

text \<open>
  What the early exit of a pass needs of it: every recorded prefix is the tile prefix of
  a key of \<open>chunked\<close>. An exact, an empty and an absent prefix set all have it.
\<close>

definition prefixesSound :: "Template \<Rightarrow> bool" where
  "prefixesSound template =
     (case tilePrefixes template of None \<Rightarrow> True
      | Some prefixSet \<Rightarrow> prefixSet \<subseteq> set (map tilePrefixOf (map fst (chunked template))))"

text \<open>The pass stores a record for the tile exactly when it draws at least one fragment.\<close>

definition emitsProgress :: "TemplateManager \<Rightarrow> string \<Rightarrow> bool" where
  "emitsProgress m tileCoordsStr =
     (templatesShouldBeDrawn m
      \<and> isAnyTemplateInTile (sortByPriority (templatesArray m)) tileCoordsStr
      \<and> getRelevantTemplateTileBlobs (sortByPriority (templatesArray m)) tileCoordsStr \<noteq> [])"

section \<open>Small inputs\<close>

text \<open>
  A tile of one canvas pixel drawn at multiplier 3 (a 3 by 3 snapshot) and a 3 by 3
  fragment at pixel offset (0, 0) of tile (0, 0). Only the centre pixel, at byte 16, is
  set; the rest is transparent black.
\<close>

definition centerData :: "nat \<Rightarrow> nat \<Rightarrow> nat \<Rightarrow> nat \<Rightarrow> nat list" where
  "centerData r g b a =
     [0, 0, 0, 0,  0, 0, 0, 0,  0, 0, 0, 0,
      0, 0, 0, 0,  r, g, b, a,  0, 0, 0, 0,
      0, 0, 0, 0,  0, 0, 0, 0,  0, 0, 0, 0]"

definition centerBitmap :: "nat \<Rightarrow> nat \<Rightarrow> nat \<Rightarrow> nat \<Rightarrow> Bitmap" where
  "centerBitmap r g b a = \<lparr> width = 3, height = 3, data = centerData r g b a \<rparr>"

definition sampleTemplate :: "Bitmap \<Rightarrow> (string \<times> PaletteEntry) list \<Rightarrow> Template" where
  "sampleTemplate bmp palette =
     \<lparr> sortID = 0, chunked = [(''0000,0000,000,000'', bmp)],
       tilePrefixes = Some {''0000,0000''},
       allowedColorsSet = Some {''10,20,30'', ''40,50,60''},
       colorPalette = palette \<rparr>"

definition sampleManager :: "Bitmap \<Rightarrow> (string \<times> PaletteEntry) list \<Rightarrow> TileProgressManager \<Rightarrow> TemplateManager" where
  "sampleManager bmp palette recorded =
     \<lparr> tileSize = 1, drawMult = 3, templatesArray = [sampleTemplate bmp palette],
       templatesShouldBeDrawn = True, tileProgress = recorded \<rparr>"


definition blankBitmap :: Bitmap where
  "blankBitmap = centerBitmap 1 2 3 0"

definition requiredBitmap :: Bitmap where
  "requiredBitmap = centerBitmap 10 20 30 255"

definition strayBitmap :: Bitmap where
  "strayBitmap = centerBitmap 9 9 9 255"

definition samplePalette :: "(string \<times> PaletteEntry) list" where
  "samplePalette =
     [(''10,20,30'', \<lparr> count = 1, enabled = False \<rparr>),
      (''40,50,60'', \<lparr> count = 1, enabled = True \<rparr>),
      (''other'', \<lparr> count = 1, enabled = True \<rparr>)]"

definition sampleProgress :: TileProgress where
  "sampleProgress =
     \<lparr> totalPixelCount = 1, paintedPixelCount = 1, wrongPixelCount = 0,
       paintedPixelColorCounts = [''10,20,30'' \<mapsto> 1], wrongPixelColorCounts = Map.empty,
       wrongPixelPositions = [] \<rparr>"

text \<open>The managers, fragments, snapshot and tile file the examples below run on.\<close>

definition blankManager :: TemplateManager where
  "blankManager = sampleManager blankBitmap [] []"


definition requiredManager :: TemplateManager where
  "requiredManager = sampleManager requiredBitmap [] []"


definition recordedManager :: TemplateManager where
  "recordedManager = sampleManager requiredBitmap [] [(''0000,0000'', sampleProgress)]"

definition filterManager :: TemplateManager where
  "filterManager = sampleManager requiredBitmap samplePalette []"

definition strayManager :: TemplateManager where
  "strayManager = sampleManager strayBitmap samplePalette []"

definition paintedSnapshot :: "nat list" where
  "paintedSnapshot = centerData 10 20 30 255"

definition pngBlob :: Blob where
  "pngBlob = [137, 80, 78, 71]"










section \<open>Keys, prefixes and the tile matcher\<close>

lemma splitComma_not_Nil: "splitComma s \<noteq> []"
  by (induction s) (auto split: list.splits)

lemma joinComma_Cons: "ws \<noteq> [] \<Longrightarrow> joinComma (w # ws) = w @ CHR '','' # joinComma ws"
  by (cases ws) auto

lemma joinComma_splitComma: "joinComma (splitComma s) = s"
proof (induction s)
  case Nil
  then show ?case by simp
next
  case (Cons c cs)
  show ?case
  proof (cases "c = CHR '',''")
    case True
    then show ?thesis using Cons splitComma_not_Nil [of cs] by (simp add: joinComma_Cons)
  next
    case False
    obtain w ws where sp: "splitComma cs = w # ws"
      using splitComma_not_Nil [of cs] by (cases "splitComma cs") auto
    have "joinComma ((c # w) # ws) = c # joinComma (w # ws)"
      by (cases ws) auto
    then show ?thesis using False Cons sp by simp
  qed
qed

lemma prefix_joinComma_take: "prefix (joinComma (take n ws)) (joinComma ws)"
proof (induction ws arbitrary: n rule: joinComma.induct)
  case 1
  then show ?case by simp
next
  case (2 w)
  then show ?case by (cases n) auto
next
  case (3 w v ws)
  show ?case
  proof (cases n)
    case 0
    then show ?thesis by simp
  next
    case (Suc k)
    show ?thesis
    proof (cases k)
      case 0
      then show ?thesis using Suc by simp
    next
      case (Suc j)
      have "take n (w # v # ws) = w # take k (v # ws)" using \<open>n = Suc k\<close> by simp
      moreover have "take k (v # ws) \<noteq> []" using Suc by simp
      ultimately have "joinComma (take n (w # v # ws)) = w @ CHR '','' # joinComma (take k (v # ws))"
        by (simp add: joinComma_Cons)
      then show ?thesis using "3.IH" [of k] by simp
    qed
  qed
qed

text \<open>The recorded prefix of a key is an initial part of the key.\<close>

lemma tilePrefixOf_prefix: "prefix (tilePrefixOf k) k"
  using prefix_joinComma_take [of 2 "splitComma k"]
  by (simp add: tilePrefixOf_def joinComma_splitComma)

lemma tilePrefixOf_startsWith: "startsWith k (tilePrefixOf k)"
  by (simp add: startsWith_def tilePrefixOf_prefix)





lemma relevantBlobOf_None:
  assumes "\<not> inTileByScan template tileCoordsStr"
  shows "relevantBlobOf template tileCoordsStr = None"
proof -
  have "filter (\<lambda>entry. startsWith (fst entry) tileCoordsStr) (chunked template) = []"
    using assms by (auto simp: inTileByScan_def list_ex_iff filter_empty_conv)
  then show ?thesis by (simp add: relevantBlobOf_def)
qed

lemma getRelevantTemplateTileBlobs_Nil:
  assumes "\<forall>template \<in> set templates. \<not> inTileByScan template tileCoordsStr"
  shows "getRelevantTemplateTileBlobs templates tileCoordsStr = []"
  using assms
  by (induction templates)
     (simp_all add: getRelevantTemplateTileBlobs_def List.map_filter_simps relevantBlobOf_None)

lemma prefixesExact_prefixesSound: "prefixesExact template \<Longrightarrow> prefixesSound template"
  by (simp add: prefixesExact_def prefixesSound_def split: option.splits)

lemma not_in_sound_prefixes:
  assumes "\<not> inTileByScan template tileCoordsStr"
    and "prefixesSound template"
    and "tilePrefixes template = Some prefixSet"
  shows "\<not> inTileByPrefixes prefixSet tileCoordsStr"
proof
  assume "inTileByPrefixes prefixSet tileCoordsStr"
  then have "tileCoordsStr \<in> prefixSet"
    by (simp add: inTileByPrefixes_def)
  moreover have "prefixSet \<subseteq> tilePrefixOf ` fst ` set (chunked template)"
    using assms(2,3) by (simp add: prefixesSound_def image_image)
  ultimately obtain k where k: "k \<in> fst ` set (chunked template)" and "tilePrefixOf k = tileCoordsStr"
    by blast
  then have "startsWith k tileCoordsStr" using tilePrefixOf_startsWith [of k] by simp
  with k assms(1) show False by (auto simp: inTileByScan_def list_ex_iff)
qed

lemma isAnyTemplateInTile_False:
  assumes "\<forall>template \<in> set templates. \<not> inTileByScan template tileCoordsStr"
    and "\<forall>template \<in> set templates. prefixesSound template"
  shows "\<not> isAnyTemplateInTile templates tileCoordsStr"
  using assms not_in_sound_prefixes
  by (auto simp: isAnyTemplateInTile_def list_ex_iff split: option.splits)

lemma set_sortByPriority: "set (sortByPriority templates) = set templates"
  by (simp add: sortByPriority_def)

text \<open>
  Whatever the prefix sets hold, a tile that no fragment meets gets an empty list from
  the tile matcher and no progress record.
\<close>

lemma no_fragments_no_progress:
  assumes "\<forall>template \<in> set (templatesArray m). \<not> inTileByScan template tileCoordsStr"
  shows "getRelevantTemplateTileBlobs (sortByPriority (templatesArray m)) tileCoordsStr = []
       \<and> tileProgress (snd (drawTemplateOnTile m tileBlob capture tileCoordsStr)) = tileProgress m"
proof -
  have "getRelevantTemplateTileBlobs (sortByPriority (templatesArray m)) tileCoordsStr = []"
    using assms by (intro getRelevantTemplateTileBlobs_Nil) (simp add: set_sortByPriority)
  then show ?thesis by (simp add: drawTemplateOnTile_def Let_def)
qed

text \<open>
  C8. When no key of any template starts with the tile's coordinates (no fragment
  meets the tile), the tile matcher returns the empty list, and the pass returns the
  very blob it was given and leaves the recorded progress as it was. The prefix sets
  are taken to hold only tile prefixes of their template's keys, which the data model's
  invariant (the prefix set is derived from the keys) gives.
\<close>

theorem no_fragments_tile_unchanged:
  assumes "\<forall>template \<in> set (templatesArray m). \<not> inTileByScan template tileCoordsStr"
    and "\<forall>template \<in> set (templatesArray m). prefixesSound template"
  shows "getRelevantTemplateTileBlobs (sortByPriority (templatesArray m)) tileCoordsStr = []
       \<and> fst (drawTemplateOnTile m tileBlob capture tileCoordsStr) = SameBlob tileBlob
       \<and> tileProgress (snd (drawTemplateOnTile m tileBlob capture tileCoordsStr)) = tileProgress m"
proof -
  have none: "getRelevantTemplateTileBlobs (sortByPriority (templatesArray m)) tileCoordsStr = []"
    using assms(1) by (intro getRelevantTemplateTileBlobs_Nil) (simp add: set_sortByPriority)
  have "\<not> isAnyTemplateInTile (sortByPriority (templatesArray m)) tileCoordsStr"
    using assms by (intro isAnyTemplateInTile_False) (simp_all add: set_sortByPriority)
  then show ?thesis using none by (simp add: drawTemplateOnTile_def Let_def)
qed

theorem no_fragments_tile_unchanged_witness:
  "getRelevantTemplateTileBlobs
      (sortByPriority (templatesArray recordedManager))
      ''0009,0009'' = []
   \<and> fst (drawTemplateOnTile recordedManager
            pngBlob (Some paintedSnapshot) ''0009,0009'')
       = SameBlob pngBlob
   \<and> tileProgress (snd (drawTemplateOnTile recordedManager
            pngBlob (Some paintedSnapshot) ''0009,0009''))
       = [(''0000,0000'', sampleProgress)]"
proof -
  let ?m = "recordedManager"
  have h1: "\<forall>template \<in> set (templatesArray ?m). \<not> inTileByScan template ''0009,0009''"
    by code_simp
  have h2: "\<forall>template \<in> set (templatesArray ?m). prefixesSound template"
    by code_simp
  have "tileProgress ?m = [(''0000,0000'', sampleProgress)]"
    by (simp add: sampleManager_def blankManager_def requiredManager_def recordedManager_def filterManager_def strayManager_def)
  then show ?thesis
    using no_fragments_tile_unchanged [OF h1 h2, of "pngBlob" "Some paintedSnapshot"]
    by simp
qed

section \<open>Classification of one sampled pixel\<close>













section \<open>The sampling loop\<close>

lemma fold_rows:
  "fold (\<lambda>y. fold (\<lambda>x. f x y) xs) ys st
     = fold (\<lambda>p. f (fst p) (snd p)) (concat (map (\<lambda>y. map (\<lambda>x. (x, y)) xs) ys)) st"
proof (induction ys arbitrary: st)
  case Nil
  then show ?case by simp
next
  case (Cons y ys)
  have "fold (\<lambda>p. f (fst p) (snd p)) (map (\<lambda>x. (x, y)) xs) st = fold (\<lambda>x. f x y) xs st"
    by (simp add: fold_map comp_def)
  then show ?case using Cons by simp
qed

lemma classifyTemplate_positions:
  "classifyTemplate m snapshot template st
     = fold (\<lambda>p. classifyPixel m snapshot template (fst p) (snd p))
         (scannedPositions (width (bitmap template)) (height (bitmap template))) st"
  unfolding classifyTemplate_def scannedPositions_def by (rule fold_rows)





section \<open>The record a pass stores\<close>

lemma classifySample_wrong_inv:
  "wrongPixelCount st = length (wrongPixelPositions st) \<Longrightarrow>
   wrongPixelCount (classifySample m snapshot template x y st)
     = length (wrongPixelPositions (classifySample m snapshot template x y st))"
  by (simp add: classifySample_def Let_def)

lemma classifyPixel_wrong_inv:
  "wrongPixelCount st = length (wrongPixelPositions st) \<Longrightarrow>
   wrongPixelCount (classifyPixel m snapshot template x y st)
     = length (wrongPixelPositions (classifyPixel m snapshot template x y st))"
  by (simp add: classifyPixel_def classifySample_wrong_inv)

lemma fold_inv:
  assumes "\<And>x s. P s \<Longrightarrow> P (f x s)" and "P st"
  shows "P (fold f xs st)"
  using assms(2) by (induction xs arbitrary: st) (simp_all add: assms(1))

lemma classifyTemplate_wrong_inv:
  assumes "wrongPixelCount st = length (wrongPixelPositions st)"
  shows "wrongPixelCount (classifyTemplate m snapshot template st)
     = length (wrongPixelPositions (classifyTemplate m snapshot template st))"
  unfolding classifyTemplate_positions
  by (rule fold_inv [where P = "\<lambda>s. wrongPixelCount s = length (wrongPixelPositions s)"])
     (simp_all add: classifyPixel_wrong_inv assms)

lemma drawOneTemplate_wrong_inv:
  assumes "wrongPixelCount (fst acc) = length (wrongPixelPositions (fst acc))"
  shows "wrongPixelCount (fst (drawOneTemplate m capture template acc))
     = length (wrongPixelPositions (fst (drawOneTemplate m capture template acc)))"
  using assms by (cases capture) (simp_all add: drawOneTemplate_def classifyTemplate_wrong_inv)

lemma fold_drawOneTemplate_wrong_inv:
  assumes "wrongPixelCount (fst acc) = length (wrongPixelPositions (fst acc))"
  shows "wrongPixelCount (fst (fold (drawOneTemplate m capture) blobs acc))
     = length (wrongPixelPositions (fst (fold (drawOneTemplate m capture) blobs acc)))"
  by (rule fold_inv [where P = "\<lambda>a. wrongPixelCount (fst a) = length (wrongPixelPositions (fst a))"])
     (simp_all add: drawOneTemplate_wrong_inv assms)

text \<open>
  C10. A pass that draws at least one fragment stores for the tile a record whose
  wrong count is the length of its wrong positions; any other pass stores nothing.
\<close>

theorem emitted_wrong_count_is_positions_length:
  "(emitsProgress m tileCoordsStr \<longrightarrow>
      (\<exists>progress.
          tileProgress (snd (drawTemplateOnTile m tileBlob capture tileCoordsStr))
            = TileProgressManager_set tileCoordsStr progress (tileProgress m)
        \<and> wrongPixelCount progress = length (wrongPixelPositions progress)))
   \<and> (\<not> emitsProgress m tileCoordsStr \<longrightarrow>
        tileProgress (snd (drawTemplateOnTile m tileBlob capture tileCoordsStr)) = tileProgress m)"
proof -
  have "wrongPixelCount (fst (emptyProgress, ops))
          = length (wrongPixelPositions (fst (emptyProgress, ops)))" for ops :: "DrawOp list"
    by (simp add: emptyProgress_def)
  from fold_drawOneTemplate_wrong_inv [OF this]
  show ?thesis
    by (auto simp: drawTemplateOnTile_def emitsProgress_def Let_def)
qed

theorem emitted_wrong_count_is_positions_length_witness:
  "emitsProgress blankManager ''0000,0000''
   \<and> (\<exists>progress.
         tileProgress (snd (drawTemplateOnTile blankManager pngBlob
                              (Some paintedSnapshot) ''0000,0000''))
           = TileProgressManager_set ''0000,0000'' progress (tileProgress blankManager)
       \<and> wrongPixelCount progress = length (wrongPixelPositions progress))
   \<and> map (\<lambda>entry. (fst entry, wrongPixelCount (snd entry), length (wrongPixelPositions (snd entry))))
        (tileProgress (snd (drawTemplateOnTile blankManager pngBlob
                              (Some paintedSnapshot) ''0000,0000'')))
       = [(''0000,0000'', 1, 1)]
   \<and> \<not> emitsProgress blankManager ''0009,0009''
   \<and> tileProgress (snd (drawTemplateOnTile blankManager pngBlob
                              (Some paintedSnapshot) ''0009,0009''))
       = tileProgress blankManager"
proof -
  let ?m = "blankManager"
  have e: "emitsProgress ?m ''0000,0000''" by code_simp
  have n: "\<not> emitsProgress ?m ''0009,0009''" by code_simp
  have v: "map (\<lambda>entry. (fst entry, wrongPixelCount (snd entry), length (wrongPixelPositions (snd entry))))
        (tileProgress (snd (drawTemplateOnTile ?m pngBlob
                              (Some paintedSnapshot) ''0000,0000'')))
       = [(''0000,0000'', 1, 1)]"
    by code_simp
  show ?thesis
    using emitted_wrong_count_is_positions_length [of ?m "''0000,0000''" "pngBlob" "Some paintedSnapshot"]
      emitted_wrong_count_is_positions_length [of ?m "''0009,0009''" "pngBlob" "Some paintedSnapshot"]
      e n v
    by simp
qed

section \<open>A pass without a snapshot\<close>

lemma fold_drawOneTemplate_no_snapshot:
  "fst (fold (drawOneTemplate m None) blobs acc) = fst acc"
  by (induction blobs arbitrary: acc) (simp_all add: drawOneTemplate_def)

lemma fold_drawOneTemplate_canvas:
  "snd (fold (drawOneTemplate m capture) blobs acc) = snd acc @ map (drawOverlay m) blobs"
  by (induction blobs arbitrary: acc) (simp_all add: drawOneTemplate_def)

text \<open>The image returned does not depend on whether the snapshot was captured.\<close>

lemma overlay_without_snapshot:
  "fst (drawTemplateOnTile m tileBlob None tileCoordsStr)
     = fst (drawTemplateOnTile m tileBlob capture tileCoordsStr)"
  by (simp add: drawTemplateOnTile_def Let_def fold_drawOneTemplate_canvas)

text \<open>
  C2. What the code does when the snapshot capture fails: a pass that draws at least
  one fragment stores the all-zero record for the tile, replacing what was recorded.
\<close>

theorem failed_snapshot_stores_empty_progress:
  assumes "emitsProgress m tileCoordsStr"
  shows "tileProgress (snd (drawTemplateOnTile m tileBlob None tileCoordsStr))
           = TileProgressManager_set tileCoordsStr emptyProgress (tileProgress m)"
  using assms
  by (simp add: drawTemplateOnTile_def emitsProgress_def Let_def fold_drawOneTemplate_no_snapshot)

text \<open>
  A tile recorded with one painted pixel, diffed again with a failed capture: the
  record stored afterwards is the all-zero one.
\<close>

theorem failed_snapshot_stores_empty_progress_witness:
  "emitsProgress recordedManager ''0000,0000''
   \<and> map_option paintedPixelCount
        (TileProgressManager_get
           (tileProgress recordedManager) ''0000,0000'')
       = Some 1
   \<and> tileProgress (snd (drawTemplateOnTile
        recordedManager pngBlob None ''0000,0000''))
       = [(''0000,0000'', emptyProgress)]
   \<and> map_option paintedPixelCount
        (TileProgressManager_get
           (tileProgress (snd (drawTemplateOnTile
              recordedManager pngBlob None ''0000,0000'')))
           ''0000,0000'')
       = Some 0"
proof -
  let ?m = "recordedManager"
  have e: "emitsProgress ?m ''0000,0000''" by code_simp
  have before: "tileProgress ?m = [(''0000,0000'', sampleProgress)]" by (simp add: sampleManager_def blankManager_def requiredManager_def recordedManager_def filterManager_def strayManager_def)
  show ?thesis
    using failed_snapshot_stores_empty_progress [OF e, of "pngBlob"] e before
    by (simp add: TileProgressManager_get_def sampleProgress_def emptyProgress_def)
qed

section \<open>The colour filter\<close>







section \<open>Progress aggregation\<close>

text \<open>
  C9. After tile A is recorded at one address and tile B at another address, starting
  from an empty manager, the totals are the sums of the two tiles' total, painted and
  wrong counts, and the wrong-pixel positions are A's followed by B's.
\<close>

theorem computeTotalProgress_two_tiles:
  assumes "keyA \<noteq> keyB"
  shows "computeTotalProgress (TileProgressManager_set keyB B (TileProgressManager_set keyA A [])) =
           \<lparr> aggregateTotalPixelCount = totalPixelCount A + totalPixelCount B,
             aggregatePaintedPixelCount = paintedPixelCount A + paintedPixelCount B,
             aggregateWrongPixelCount = wrongPixelCount A + wrongPixelCount B,
             aggregateWrongPixelPositions = wrongPixelPositions A @ wrongPixelPositions B \<rparr>"
  using assms by (simp add: computeTotalProgress_def addProgress_def)

theorem computeTotalProgress_two_tiles_witness:
  "''0001,0002'' \<noteq> ''0001,0003'' \<and>
   computeTotalProgress
     (TileProgressManager_set ''0001,0003''
        \<lparr> totalPixelCount = 4, paintedPixelCount = 1, wrongPixelCount = 0,
          paintedPixelColorCounts = Map.empty, wrongPixelColorCounts = Map.empty,
          wrongPixelPositions = [] \<rparr>
        (TileProgressManager_set ''0001,0002''
           \<lparr> totalPixelCount = 9, paintedPixelCount = 5, wrongPixelCount = 1,
             paintedPixelColorCounts = Map.empty, wrongPixelColorCounts = Map.empty,
             wrongPixelPositions = [\<lparr> tx = Some 1, ty = Some 2, px = Some 7, py = Some 8 \<rparr>] \<rparr>
           [])) =
     \<lparr> aggregateTotalPixelCount = 13, aggregatePaintedPixelCount = 6,
       aggregateWrongPixelCount = 1,
       aggregateWrongPixelPositions = [\<lparr> tx = Some 1, ty = Some 2, px = Some 7, py = Some 8 \<rparr>] \<rparr>"
proof -
  have distinct_keys: "''0001,0002'' \<noteq> ''0001,0003''" by simp
  show ?thesis
    using distinct_keys computeTotalProgress_two_tiles [OF distinct_keys] by simp
qed

end
